theory Spec2Isabelle
  imports Complex_Main "HOL-Library.Word"
begin

section \<open>Values exchanged with the rendering engine\<close>

text \<open>
  The scene controller of \<^verbatim>\<open>avatar-scene-template.cpp\<close> computes with \<^verbatim>\<open>float\<close> in two
  places only: the aspect ratio \<^verbatim>\<open>static_cast<float>(w) / static_cast<float>(h)\<close> and the
  time step \<^verbatim>\<open>1.0f / 60.0f\<close>. Both are handed to the engine at once. A float is therefore
  kept as the expression the source builds it from: a literal, an \<^verbatim>\<open>int\<close> converted to
  float, a quotient, or a value that the engine returned. No rounding is asserted.
\<close>

datatype float = Lit rat | OfInt "32 word" | Quot float float | FromEngine nat

datatype vec3 = Vec3 float float float

text \<open>An engine object is known by its address; \<open>0\<close> is the null pointer.\<close>

type_synonym ptr = nat

text \<open>
  The operations of the engine that the controller calls, each with the arguments of the
  call site. The engine itself is outside the source file.
\<close>

datatype engine_call =
    CreateGraphicsDevice
  | NewScene ptr
  | NewGltfLoader ptr
  | NewAnimator
  | NewRegistry
  | RegistryCreate
  | EmplaceTransform nat vec3 vec3 vec3
  | EmplaceDirectionalLight nat vec3 float
  | EmplaceRenderMesh nat ptr
  | GetTransform nat
  | SetAmbientLight vec3 float
  | SetCamera vec3 vec3 vec3 float float float float
  | SetAnimationSpeed float
  | PlayAnimation string bool
  | LoadFromMemory "8 word list"
  | HasSkeleton ptr
  | GetSkeleton ptr
  | BindSkeleton nat
  | AddEntity nat nat
  | AnimatorUpdate float
  | SceneUpdate float
  | BeginFrame
  | SceneRender ptr
  | EndFrame
  | Present
  | SetViewport "32 word" "32 word" "32 word" "32 word"
  | GetFrameRate

text \<open>
  A call either returns a value (an address, an entity, a truth value as \<open>0\<close> or not
  \<open>0\<close>; ignored for \<^verbatim>\<open>void\<close>) or throws a \<^verbatim>\<open>std::exception\<close> with a message.
\<close>

datatype reply = Ret nat | Throws string

datatype handle_kind = HDevice | HScene | HLoader | HAnimator | HRegistry

text \<open>What a run does to the outside: console output, engine calls, destroyed objects.\<close>

datatype event =
    LogInfo string
  | LogError string
  | Call engine_call
  | Released handle_kind

text \<open>The engine answers a call knowing everything that happened before it.\<close>

type_synonym engine = "event list \<Rightarrow> engine_call \<Rightarrow> reply"

section \<open>The scene state\<close>

text \<open>\<^verbatim>\<open>struct SceneState\<close>; a \<^verbatim>\<open>std::unique_ptr\<close> is \<open>None\<close> when it owns nothing.\<close>

record SceneState =
  graphicsDevice :: "ptr option"
  scene :: "ptr option"
  modelLoader :: "ptr option"
  animator :: "ptr option"
  registry :: "ptr option"
  avatarEntity :: nat
  cameraPosition :: vec3
  cameraTarget :: vec3
  cameraFOV :: float
  currentAnimationState :: string
  canvasWidth :: "32 word"
  canvasHeight :: "32 word"

text \<open>The global \<^verbatim>\<open>g_scene\<close> together with the events produced so far.\<close>

record world =
  g_scene :: SceneState
  trace :: "event list"

definition g_scene0 :: SceneState where
  "g_scene0 = \<lparr> graphicsDevice = None, scene = None, modelLoader = None,
      animator = None, registry = None, avatarEntity = 0,
      cameraPosition = Vec3 (Lit 0) (Lit (17 / 10)) (Lit (5 / 2)),
      cameraTarget = Vec3 (Lit 0) (Lit (3 / 2)) (Lit 0),
      cameraFOV = Lit 50,
      currentAnimationState = ''idle'',
      canvasWidth = 1024, canvasHeight = 768 \<rparr>"

text \<open>\<^verbatim>\<open>main\<close> logs one line when the module is loaded.\<close>

definition main_world :: world where
  "main_world = \<lparr> g_scene = g_scene0,
      trace = [LogInfo ''LIT-LAND Avatar Engine starting...''] \<rparr>"

fun handle_of :: "handle_kind \<Rightarrow> SceneState \<Rightarrow> ptr option" where
  "handle_of HDevice s = graphicsDevice s"
| "handle_of HScene s = scene s"
| "handle_of HLoader s = modelLoader s"
| "handle_of HAnimator s = animator s"
| "handle_of HRegistry s = registry s"

fun set_handle :: "handle_kind \<Rightarrow> ptr option \<Rightarrow> SceneState \<Rightarrow> SceneState" where
  "set_handle HDevice v s = s\<lparr>graphicsDevice := v\<rparr>"
| "set_handle HScene v s = s\<lparr>scene := v\<rparr>"
| "set_handle HLoader v s = s\<lparr>modelLoader := v\<rparr>"
| "set_handle HAnimator v s = s\<lparr>animator := v\<rparr>"
| "set_handle HRegistry v s = s\<lparr>registry := v\<rparr>"

section \<open>Statements: state, exceptions, undefined behaviour\<close>

text \<open>
  A statement either completes, or leaves by a thrown \<^verbatim>\<open>std::exception\<close> (the state as it
  is at the throw), or dereferences a null \<^verbatim>\<open>unique_ptr\<close>, which no handler catches.

  What the model takes for granted: the two logging functions and the construction of
  their \<^verbatim>\<open>std::string\<close> arguments do not throw; destructors do not throw; whatever the
  engine throws derives from \<^verbatim>\<open>std::exception\<close>, the only type the handlers of the file
  catch; the \<^verbatim>\<open>const char*\<close> passed to \<^verbatim>\<open>setAnimationState\<close> points to a string.
\<close>

datatype 'a outcome = Done 'a world | Raise string world | Fault

type_synonym 'a prog = "world \<Rightarrow> 'a outcome"

definition bind_prog :: "'a prog \<Rightarrow> ('a \<Rightarrow> 'b prog) \<Rightarrow> 'b prog" where
  "bind_prog m f = (\<lambda>w. case m w of
      Done a w' \<Rightarrow> f a w'
    | Raise e w' \<Rightarrow> Raise e w'
    | Fault \<Rightarrow> Fault)"

definition seq :: "'a prog \<Rightarrow> 'b prog \<Rightarrow> 'b prog" where
  "seq m n = bind_prog m (\<lambda>_. n)"

definition skip :: "unit prog" where
  "skip = (\<lambda>w. Done () w)"

definition emit :: "event \<Rightarrow> unit prog" where
  "emit e = (\<lambda>w. Done () (w\<lparr>trace := trace w @ [e]\<rparr>))"

definition logInfo :: "string \<Rightarrow> unit prog" where
  "logInfo message = emit (LogInfo message)"

definition logError :: "string \<Rightarrow> unit prog" where
  "logError message = emit (LogError message)"

definition throw :: "string \<Rightarrow> 'a prog" where
  "throw what = (\<lambda>w. Raise what w)"

definition modify :: "(SceneState \<Rightarrow> SceneState) \<Rightarrow> unit prog" where
  "modify f = (\<lambda>w. Done () (w\<lparr>g_scene := f (g_scene w)\<rparr>))"

text \<open>A call into the engine: the call is made, then the engine's answer decides.\<close>

definition engine_do :: "engine \<Rightarrow> engine_call \<Rightarrow> nat prog" where
  "engine_do eng c = (\<lambda>w. case eng (trace w) c of
      Ret v \<Rightarrow> Done v (w\<lparr>trace := trace w @ [Call c]\<rparr>)
    | Throws what \<Rightarrow> Raise what (w\<lparr>trace := trace w @ [Call c]\<rparr>))"

text \<open>\<^verbatim>\<open>g_scene.h->\<close>: the owned address, undefined behaviour when there is none.\<close>

definition deref :: "handle_kind \<Rightarrow> ptr prog" where
  "deref k = (\<lambda>w. case handle_of k (g_scene w) of
      None \<Rightarrow> Fault
    | Some p \<Rightarrow> Done p w)"

text \<open>\<^verbatim>\<open>g_scene.h->f(args)\<close>.\<close>

definition call_on :: "handle_kind \<Rightarrow> engine \<Rightarrow> engine_call \<Rightarrow> nat prog" where
  "call_on k eng c = seq (deref k) (engine_do eng c)"

text \<open>
  Move assignment to a \<^verbatim>\<open>unique_ptr\<close>, and \<^verbatim>\<open>reset()\<close> with \<open>None\<close>: the new value is
  stored and the object owned before, if any, is destroyed.
\<close>

definition assign :: "handle_kind \<Rightarrow> ptr option \<Rightarrow> unit prog" where
  "assign k v = (\<lambda>w. Done () (w\<lparr> g_scene := set_handle k v (g_scene w),
      trace := trace w @ (case handle_of k (g_scene w) of
          None \<Rightarrow> []
        | Some _ \<Rightarrow> [Released k]) \<rparr>))"

text \<open>
  What the host sees of an entry point. A \<^verbatim>\<open>try\<close> block with
  \<^verbatim>\<open>catch (const std::exception& e)\<close> turns a thrown exception into one error line and a
  normal return; without the block the exception leaves the entry point.
\<close>

datatype failure = NullDeref | Uncaught string

definition try_catch :: "string \<Rightarrow> unit prog \<Rightarrow> world \<Rightarrow> failure + world" where
  "try_catch prefix body = (\<lambda>w. case body w of
      Done _ w' \<Rightarrow> Inr w'
    | Raise what w' \<Rightarrow> Inr (w'\<lparr>trace := trace w' @ [LogError (prefix @ what)]\<rparr>)
    | Fault \<Rightarrow> Inl NullDeref)"

section \<open>Animation states\<close>

definition setupIdleAnimation :: "engine \<Rightarrow> unit prog" where
  "setupIdleAnimation eng = (\<lambda>w.
     if animator (g_scene w) = None then skip w
     else seq (call_on HAnimator eng (SetAnimationSpeed (Lit (3 / 10))))
         (seq (call_on HAnimator eng (PlayAnimation ''Armature|ArmatureAction'' True))
           skip) w)"

definition setupListeningAnimation :: "engine \<Rightarrow> unit prog" where
  "setupListeningAnimation eng = (\<lambda>w.
     if animator (g_scene w) = None then skip w
     else seq (call_on HAnimator eng (SetAnimationSpeed (Lit (1 / 2))))
         (seq (call_on HAnimator eng (PlayAnimation ''HeadTilt'' False))
           skip) w)"

definition setupSpeakingAnimation :: "engine \<Rightarrow> unit prog" where
  "setupSpeakingAnimation eng = (\<lambda>w.
     if animator (g_scene w) = None then skip w
     else seq (call_on HAnimator eng (SetAnimationSpeed (Lit 1)))
         (seq (call_on HAnimator eng (PlayAnimation ''Talking'' True))
           skip) w)"

definition setAnimationState_body :: "engine \<Rightarrow> string \<Rightarrow> unit prog" where
  "setAnimationState_body eng stateName =
     seq (modify (\<lambda>s. s\<lparr>currentAnimationState := stateName\<rparr>))
    (seq (\<lambda>w.
        if currentAnimationState (g_scene w) = ''idle'' then setupIdleAnimation eng w
        else if currentAnimationState (g_scene w) = ''listening''
          then setupListeningAnimation eng w
        else if currentAnimationState (g_scene w) = ''speaking''
          then setupSpeakingAnimation eng w
        else logError (''Unknown animation state: '' @ stateName) w)
      (logInfo (''Animation state changed to: '' @ stateName)))"

definition setAnimationState :: "engine \<Rightarrow> string \<Rightarrow> world \<Rightarrow> failure + world" where
  "setAnimationState eng stateName =
     try_catch ''Error setting animation state: '' (setAnimationState_body eng stateName)"

definition getAnimationState :: "world \<Rightarrow> string" where
  "getAnimationState w = currentAnimationState (g_scene w)"

section \<open>Entry points\<close>

text \<open>\<^verbatim>\<open>g_scene.h.get()\<close>: the owned address, null when there is none.\<close>

definition get_raw :: "handle_kind \<Rightarrow> ptr prog" where
  "get_raw k = (\<lambda>w. Done (case handle_of k (g_scene w) of None \<Rightarrow> 0 | Some p \<Rightarrow> p) w)"

text \<open>
  \<^verbatim>\<open>scene->setCamera(cameraPosition, cameraTarget, vec3(0, 1, 0), cameraFOV,
  float(w) / float(h), 0.1f, 100.0f)\<close>, as \<^verbatim>\<open>initScene\<close> and \<^verbatim>\<open>setCanvasSize\<close> call it.
\<close>

definition camera_call :: "SceneState \<Rightarrow> 32 word \<Rightarrow> 32 word \<Rightarrow> engine_call" where
  "camera_call s width height =
     SetCamera (cameraPosition s) (cameraTarget s) (Vec3 (Lit 0) (Lit 1) (Lit 0))
       (cameraFOV s) (Quot (OfInt width) (OfInt height)) (Lit (1 / 10)) (Lit 100)"

definition initScene_body :: "engine \<Rightarrow> unit prog" where
  "initScene_body eng =
     seq (logInfo ''Initializing avatar scene...'')
    (bind_prog (engine_do eng CreateGraphicsDevice) (\<lambda>d.
     seq (assign HDevice (if d = 0 then None else Some d))
    (seq (\<lambda>w. if graphicsDevice (g_scene w) = None
            then throw ''Failed to create graphics device'' w else skip w)
    (bind_prog (get_raw HDevice) (\<lambda>dev.
     bind_prog (engine_do eng (NewScene dev)) (\<lambda>sc.
     seq (assign HScene (Some sc))
    (bind_prog (get_raw HDevice) (\<lambda>dev'.
     bind_prog (engine_do eng (NewGltfLoader dev')) (\<lambda>ld.
     seq (assign HLoader (Some ld))
    (bind_prog (engine_do eng NewAnimator) (\<lambda>an.
     seq (assign HAnimator (Some an))
    (bind_prog (engine_do eng NewRegistry) (\<lambda>rg.
     seq (assign HRegistry (Some rg))
    (bind_prog (call_on HRegistry eng RegistryCreate) (\<lambda>light.
     seq (call_on HRegistry eng (EmplaceTransform light
            (Vec3 (Lit 2) (Lit 3) (Lit 2)) (Vec3 (Lit 0) (Lit 0) (Lit 0))
            (Vec3 (Lit 1) (Lit 1) (Lit 1))))
    (seq (call_on HRegistry eng (EmplaceDirectionalLight light
            (Vec3 (Lit 1) (Lit 1) (Lit 1)) (Lit 1)))
    (seq (call_on HScene eng (SetAmbientLight
            (Vec3 (Lit (1 / 2)) (Lit (1 / 2)) (Lit (1 / 2))) (Lit (1 / 2))))
    (seq (\<lambda>w. call_on HScene eng
            (camera_call (g_scene w) (canvasWidth (g_scene w)) (canvasHeight (g_scene w))) w)
    (seq (setupIdleAnimation eng)
         (logInfo ''Avatar scene initialized successfully''))))))))))))))))))))"

definition initScene :: "engine \<Rightarrow> world \<Rightarrow> failure + world" where
  "initScene eng = try_catch ''Failed to initialize scene: '' (initScene_body eng)"

definition loadAvatarModel_body :: "engine \<Rightarrow> 8 word list \<Rightarrow> unit prog" where
  "loadAvatarModel_body eng glbBuffer =
     seq (logInfo ''Loading avatar model...'')
    (seq (\<lambda>w. if modelLoader (g_scene w) = None
            then throw ''Model loader not initialized'' w else skip w)
    (bind_prog (call_on HLoader eng (LoadFromMemory glbBuffer)) (\<lambda>model.
     seq (\<lambda>w. if model = 0 then throw ''Failed to parse GLTF model'' w else skip w)
    (bind_prog (call_on HRegistry eng RegistryCreate) (\<lambda>e.
     seq (modify (\<lambda>s. s\<lparr>avatarEntity := e\<rparr>))
    (seq (\<lambda>w. call_on HRegistry eng (EmplaceTransform (avatarEntity (g_scene w))
            (Vec3 (Lit 0) (Lit 0) (Lit 0)) (Vec3 (Lit 0) (Lit 0) (Lit 0))
            (Vec3 (Lit 1) (Lit 1) (Lit 1))) w)
    (seq (\<lambda>w. call_on HRegistry eng (EmplaceRenderMesh (avatarEntity (g_scene w)) model) w)
    (bind_prog (engine_do eng (HasSkeleton model)) (\<lambda>hasSkeleton.
     seq (if hasSkeleton \<noteq> 0
          then seq (deref HAnimator)
              (bind_prog (engine_do eng (GetSkeleton model)) (\<lambda>skeleton.
               seq (engine_do eng (BindSkeleton skeleton)) skip))
          else skip)
    (seq (deref HScene)
    (seq (deref HRegistry)
    (bind_prog (\<lambda>w. engine_do eng (GetTransform (avatarEntity (g_scene w))) w) (\<lambda>transform.
     seq (\<lambda>w. engine_do eng (AddEntity (avatarEntity (g_scene w)) transform) w)
         (logInfo ''Avatar model loaded successfully''))))))))))))))"

definition loadAvatarModel :: "engine \<Rightarrow> 8 word list \<Rightarrow> world \<Rightarrow> failure + world" where
  "loadAvatarModel eng glbBuffer =
     try_catch ''Failed to load avatar model: '' (loadAvatarModel_body eng glbBuffer)"

text \<open>The time step \<^verbatim>\<open>1.0f / 60.0f\<close>.\<close>

definition frame_step :: float where
  "frame_step = Quot (Lit 1) (Lit 60)"

definition updateFrame_body :: "engine \<Rightarrow> unit prog" where
  "updateFrame_body eng =
     seq (\<lambda>w. if animator (g_scene w) \<noteq> None
            then seq (call_on HAnimator eng (AnimatorUpdate frame_step)) skip w
            else skip w)
    (seq (\<lambda>w. if scene (g_scene w) \<noteq> None
            then seq (call_on HScene eng (SceneUpdate frame_step)) skip w
            else skip w)
         (\<lambda>w. if graphicsDevice (g_scene w) \<noteq> None \<and> scene (g_scene w) \<noteq> None
            then seq (call_on HDevice eng BeginFrame)
                (bind_prog (get_raw HDevice) (\<lambda>dev.
                 seq (call_on HScene eng (SceneRender dev))
                (seq (call_on HDevice eng EndFrame)
                (seq (call_on HDevice eng Present) skip)))) w
            else skip w))"

definition updateFrame :: "engine \<Rightarrow> world \<Rightarrow> failure + world" where
  "updateFrame eng = try_catch ''Error in update frame: '' (updateFrame_body eng)"

text \<open>\<^verbatim>\<open>int\<close> is a 32-bit two's complement value; \<^verbatim>\<open>width <= 0\<close> compares it signed.\<close>

definition setCanvasSize_body :: "engine \<Rightarrow> 32 word \<Rightarrow> 32 word \<Rightarrow> unit prog" where
  "setCanvasSize_body eng width height = (\<lambda>w.
     if sint width \<le> 0 \<or> sint height \<le> 0 then skip w
     else
       seq (modify (\<lambda>s. s\<lparr>canvasWidth := width\<rparr>))
      (seq (modify (\<lambda>s. s\<lparr>canvasHeight := height\<rparr>))
      (seq (\<lambda>w. if graphicsDevice (g_scene w) \<noteq> None
              then seq (call_on HDevice eng (SetViewport 0 0 width height)) skip w
              else skip w)
           (\<lambda>w. if scene (g_scene w) \<noteq> None
              then seq (call_on HScene eng (camera_call (g_scene w) width height)) skip w
              else skip w))) w)"

definition setCanvasSize :: "engine \<Rightarrow> 32 word \<Rightarrow> 32 word \<Rightarrow> world \<Rightarrow> failure + world" where
  "setCanvasSize eng width height =
     try_catch ''Error setting canvas size: '' (setCanvasSize_body eng width height)"

text \<open>\<^verbatim>\<open>getFrameRate\<close> has no \<^verbatim>\<open>try\<close> block: what its body throws leaves the entry point.\<close>

definition no_catch :: "'a prog \<Rightarrow> world \<Rightarrow> failure + 'a \<times> world" where
  "no_catch body = (\<lambda>w. case body w of
      Done a w' \<Rightarrow> Inr (a, w')
    | Raise what w' \<Rightarrow> Inl (Uncaught what)
    | Fault \<Rightarrow> Inl NullDeref)"

definition getFrameRate_body :: "engine \<Rightarrow> float prog" where
  "getFrameRate_body eng = (\<lambda>w.
     if graphicsDevice (g_scene w) \<noteq> None
     then bind_prog (call_on HDevice eng GetFrameRate) (\<lambda>r w'. Done (FromEngine r) w') w
     else Done (Lit 0) w)"

definition getFrameRate :: "engine \<Rightarrow> world \<Rightarrow> failure + float \<times> world" where
  "getFrameRate eng = no_catch (getFrameRate_body eng)"

definition cleanup_body :: "unit prog" where
  "cleanup_body =
     seq (logInfo ''Cleaning up avatar scene...'')
    (seq (assign HRegistry None)
    (seq (assign HAnimator None)
    (seq (assign HLoader None)
    (seq (assign HScene None)
    (seq (assign HDevice None)
         (logInfo ''Cleanup complete''))))))"

definition cleanup :: "world \<Rightarrow> failure + world" where
  "cleanup = try_catch ''Error during cleanup: '' cleanup_body"

section \<open>Reachable states\<close>

text \<open>
  The host loads the module, which runs \<^verbatim>\<open>main\<close>, and then calls entry points one after
  the other, with any arguments, against an engine that may answer differently each time.
  A call that ends in undefined behaviour has no state after it.
\<close>

inductive reachable :: "world \<Rightarrow> bool" where
  r_main: "reachable main_world"
| r_initScene: "reachable w \<Longrightarrow> initScene eng w = Inr w' \<Longrightarrow> reachable w'"
| r_loadAvatarModel:
    "reachable w \<Longrightarrow> loadAvatarModel eng glbBuffer w = Inr w' \<Longrightarrow> reachable w'"
| r_setAnimationState:
    "reachable w \<Longrightarrow> setAnimationState eng stateName w = Inr w' \<Longrightarrow> reachable w'"
| r_updateFrame: "reachable w \<Longrightarrow> updateFrame eng w = Inr w' \<Longrightarrow> reachable w'"
| r_setCanvasSize:
    "reachable w \<Longrightarrow> setCanvasSize eng width height w = Inr w' \<Longrightarrow> reachable w'"
| r_getFrameRate: "reachable w \<Longrightarrow> getFrameRate eng w = Inr (r, w') \<Longrightarrow> reachable w'"
| r_cleanup: "reachable w \<Longrightarrow> cleanup w = Inr w' \<Longrightarrow> reachable w'"

text \<open>The events a call added to the trace.\<close>

definition emitted :: "world \<Rightarrow> world \<Rightarrow> event list" where
  "emitted w w' = drop (length (trace w)) (trace w')"

section \<open>Engines used in examples\<close>

text \<open>An engine on which every call succeeds and returns \<open>1\<close>.\<close>

definition healthy_engine :: engine where
  "healthy_engine = (\<lambda>_ _. Ret 1)"

text \<open>An engine that cannot construct an animator and is healthy otherwise.\<close>

definition no_animator_engine :: engine where
  "no_animator_engine = (\<lambda>_ c. if c = NewAnimator then Throws ''std::bad_alloc'' else Ret 1)"



text \<open>The state after \<^verbatim>\<open>initScene\<close> on the healthy engine, called right after \<^verbatim>\<open>main\<close>.\<close>

definition initialized_world :: world where
  "initialized_world = \<lparr>
     g_scene = g_scene0\<lparr> graphicsDevice := Some 1, scene := Some 1, modelLoader := Some 1,
       animator := Some 1, registry := Some 1 \<rparr>,
     trace =
       [LogInfo ''LIT-LAND Avatar Engine starting...'',
        LogInfo ''Initializing avatar scene...'',
        Call CreateGraphicsDevice, Call (NewScene 1), Call (NewGltfLoader 1),
        Call NewAnimator, Call NewRegistry, Call RegistryCreate,
        Call (EmplaceTransform 1 (Vec3 (Lit 2) (Lit 3) (Lit 2))
          (Vec3 (Lit 0) (Lit 0) (Lit 0)) (Vec3 (Lit 1) (Lit 1) (Lit 1))),
        Call (EmplaceDirectionalLight 1 (Vec3 (Lit 1) (Lit 1) (Lit 1)) (Lit 1)),
        Call (SetAmbientLight (Vec3 (Lit (1 / 2)) (Lit (1 / 2)) (Lit (1 / 2))) (Lit (1 / 2))),
        Call (SetCamera (Vec3 (Lit 0) (Lit (17 / 10)) (Lit (5 / 2)))
          (Vec3 (Lit 0) (Lit (3 / 2)) (Lit 0)) (Vec3 (Lit 0) (Lit 1) (Lit 0)) (Lit 50)
          (Quot (OfInt 1024) (OfInt 768)) (Lit (1 / 10)) (Lit 100)),
        Call (SetAnimationSpeed (Lit (3 / 10))),
        Call (PlayAnimation ''Armature|ArmatureAction'' True),
        LogInfo ''Avatar scene initialized successfully''] \<rparr>"

text \<open>
  The state after \<^verbatim>\<open>initScene\<close> on the engine that cannot construct an animator: the
  exception leaves the device, the scene and the model loader in place, and the animator
  and the registry absent.
\<close>

definition half_initialized_world :: world where
  "half_initialized_world = \<lparr>
     g_scene = g_scene0\<lparr> graphicsDevice := Some 1, scene := Some 1, modelLoader := Some 1 \<rparr>,
     trace =
       [LogInfo ''LIT-LAND Avatar Engine starting...'',
        LogInfo ''Initializing avatar scene...'',
        Call CreateGraphicsDevice, Call (NewScene 1), Call (NewGltfLoader 1),
        Call NewAnimator,
        LogError ''Failed to initialize scene: std::bad_alloc''] \<rparr>"

section \<open>What the host observes of a guarded entry point\<close>


section \<open>Unfolding and the example runs\<close>

lemmas prog_defs = bind_prog_def seq_def skip_def emit_def logInfo_def logError_def throw_def
  modify_def engine_do_def deref_def call_on_def assign_def try_catch_def get_raw_def

lemmas setup_defs = setupIdleAnimation_def setupListeningAnimation_def
  setupSpeakingAnimation_def

lemma initScene_healthy: "initScene healthy_engine main_world = Inr initialized_world"
  by (simp add: initScene_def initScene_body_def prog_defs setup_defs healthy_engine_def
      main_world_def g_scene0_def initialized_world_def camera_call_def)

lemma initScene_no_animator:
  "initScene no_animator_engine main_world = Inr half_initialized_world"
  by (simp add: initScene_def initScene_body_def prog_defs setup_defs no_animator_engine_def
      main_world_def g_scene0_def half_initialized_world_def camera_call_def)

section \<open>Animation state: \<^verbatim>\<open>setAnimationState\<close> and \<^verbatim>\<open>getAnimationState\<close>\<close>




text \<open>
  C2. For each of the names \<^verbatim>\<open>idle\<close>, \<^verbatim>\<open>listening\<close> and \<^verbatim>\<open>speaking\<close>, in every state
  and whatever the engine answers, \<^verbatim>\<open>setAnimationState\<close> returns normally and
  \<^verbatim>\<open>getAnimationState\<close> then returns exactly that name.
\<close>

theorem setAnimationState_then_get:
  assumes "stateName \<in> {''idle'', ''listening'', ''speaking''}"
  shows "\<exists>w'. setAnimationState eng stateName w = Inr w' \<and> getAnimationState w' = stateName"
  using assms
  by (auto simp add: setAnimationState_def setAnimationState_body_def prog_defs setup_defs
      getAnimationState_def split: reply.split option.split)

theorem setAnimationState_then_get_witness:
  "''speaking'' \<in> {''idle'', ''listening'', ''speaking''} \<and>
   (\<exists>w'. setAnimationState healthy_engine ''speaking'' initialized_world = Inr w'
      \<and> getAnimationState w' = ''speaking'')"
  using setAnimationState_then_get [of "''speaking''" healthy_engine initialized_world]
  by simp

section \<open>Shutdown: \<^verbatim>\<open>cleanup\<close>\<close>

lemma release_absent: "handle_of k (g_scene v) = None \<Longrightarrow> assign k None v = Done () v"
  by (cases k) (simp_all add: assign_def)

text \<open>
  What \<^verbatim>\<open>cleanup\<close> does in any state: the five handles are emptied, in the order
  registry, animator, model loader, scene, device, and an object is destroyed only where
  one was owned.
\<close>

lemma cleanup_result:
  "cleanup w = Inr \<lparr> g_scene = (g_scene w)\<lparr> graphicsDevice := None, scene := None,
         modelLoader := None, animator := None, registry := None \<rparr>,
       trace = trace w @ [LogInfo ''Cleaning up avatar scene...'']
         @ (case registry (g_scene w) of None \<Rightarrow> [] | Some _ \<Rightarrow> [Released HRegistry])
         @ (case animator (g_scene w) of None \<Rightarrow> [] | Some _ \<Rightarrow> [Released HAnimator])
         @ (case modelLoader (g_scene w) of None \<Rightarrow> [] | Some _ \<Rightarrow> [Released HLoader])
         @ (case scene (g_scene w) of None \<Rightarrow> [] | Some _ \<Rightarrow> [Released HScene])
         @ (case graphicsDevice (g_scene w) of None \<Rightarrow> [] | Some _ \<Rightarrow> [Released HDevice])
         @ [LogInfo ''Cleanup complete''] \<rparr>"
  by (simp add: cleanup_def cleanup_body_def prog_defs)

text \<open>
  C7. \<^verbatim>\<open>cleanup\<close> is idempotent. In every state both calls return normally; the second
  call leaves \<^verbatim>\<open>g_scene\<close> exactly as the first left it, and all it does is log its two
  information lines: it destroys no object and logs no error. Resetting a handle that owns
  nothing changes nothing.
\<close>

theorem cleanup_idempotent:
  "\<exists>w1 w2. cleanup w = Inr w1 \<and> cleanup w1 = Inr w2 \<and> g_scene w2 = g_scene w1 \<and>
     emitted w1 w2 = [LogInfo ''Cleaning up avatar scene...'', LogInfo ''Cleanup complete''] \<and>
     (\<forall>k v. handle_of k (g_scene v) = None \<longrightarrow> assign k None v = Done () v)"
  by (simp add: cleanup_result emitted_def release_absent)

theorem cleanup_idempotent_witness:
  "\<exists>w1 w2. cleanup initialized_world = Inr w1 \<and> cleanup w1 = Inr w2 \<and>
     g_scene w2 = g_scene w1 \<and>
     emitted w1 w2 = [LogInfo ''Cleaning up avatar scene...'', LogInfo ''Cleanup complete''] \<and>
     handle_of HScene (g_scene main_world) = None \<and>
     assign HScene None main_world = Done () main_world"
proof -
  from cleanup_idempotent [of initialized_world] obtain w1 w2 where
    twice: "cleanup initialized_world = Inr w1" "cleanup w1 = Inr w2" "g_scene w2 = g_scene w1"
      "emitted w1 w2 = [LogInfo ''Cleaning up avatar scene...'', LogInfo ''Cleanup complete'']"
    and absent: "\<forall>k v. handle_of k (g_scene v) = None \<longrightarrow> assign k None v = Done () v"
    by blast
  have none: "handle_of HScene (g_scene main_world) = None"
    by (simp add: main_world_def g_scene0_def)
  with absent have "assign HScene None main_world = Done () main_world"
    by blast
  with twice none show ?thesis
    by blast
qed

text \<open>
  C10. \<^verbatim>\<open>cleanup\<close> empties the five handles and touches nothing else:
  \<^verbatim>\<open>currentAnimationState\<close>, \<^verbatim>\<open>avatarEntity\<close>, \<^verbatim>\<open>cameraPosition\<close>, \<^verbatim>\<open>cameraTarget\<close>,
  \<^verbatim>\<open>cameraFOV\<close>, \<^verbatim>\<open>canvasWidth\<close> and \<^verbatim>\<open>canvasHeight\<close> keep their values, so
  \<^verbatim>\<open>getAnimationState\<close> after \<^verbatim>\<open>cleanup\<close> returns what it returned before.
\<close>

theorem cleanup_keeps_settings:
  "\<exists>w'. cleanup w = Inr w' \<and>
     (\<forall>k. handle_of k (g_scene w') = None) \<and>
     currentAnimationState (g_scene w') = currentAnimationState (g_scene w) \<and>
     avatarEntity (g_scene w') = avatarEntity (g_scene w) \<and>
     cameraPosition (g_scene w') = cameraPosition (g_scene w) \<and>
     cameraTarget (g_scene w') = cameraTarget (g_scene w) \<and>
     cameraFOV (g_scene w') = cameraFOV (g_scene w) \<and>
     canvasWidth (g_scene w') = canvasWidth (g_scene w) \<and>
     canvasHeight (g_scene w') = canvasHeight (g_scene w) \<and>
     getAnimationState w' = getAnimationState w"
proof -
  have "handle_of k ((g_scene w)\<lparr> graphicsDevice := None, scene := None,
         modelLoader := None, animator := None, registry := None \<rparr>) = None" for k
    by (cases k) simp_all
  then show ?thesis
    by (simp add: cleanup_result getAnimationState_def)
qed

section \<open>Canvas size: \<^verbatim>\<open>setCanvasSize\<close>\<close>

text \<open>No entry point other than \<^verbatim>\<open>setCanvasSize\<close> writes the canvas dimensions.\<close>

lemma initScene_canvas:
  "case initScene eng w of Inl _ \<Rightarrow> True
   | Inr w' \<Rightarrow> canvasWidth (g_scene w') = canvasWidth (g_scene w) \<and>
       canvasHeight (g_scene w') = canvasHeight (g_scene w)"
  by (simp add: initScene_def initScene_body_def prog_defs setup_defs split: reply.split)

lemma loadAvatarModel_canvas:
  "case loadAvatarModel eng glbBuffer w of Inl _ \<Rightarrow> True
   | Inr w' \<Rightarrow> canvasWidth (g_scene w') = canvasWidth (g_scene w) \<and>
       canvasHeight (g_scene w') = canvasHeight (g_scene w)"
  by (simp add: loadAvatarModel_def loadAvatarModel_body_def prog_defs
      split: reply.split option.split)

lemma setAnimationState_canvas:
  "case setAnimationState eng stateName w of Inl _ \<Rightarrow> True
   | Inr w' \<Rightarrow> canvasWidth (g_scene w') = canvasWidth (g_scene w) \<and>
       canvasHeight (g_scene w') = canvasHeight (g_scene w)"
  by (simp add: setAnimationState_def setAnimationState_body_def prog_defs setup_defs
      split: reply.split option.split)

lemma updateFrame_canvas:
  "case updateFrame eng w of Inl _ \<Rightarrow> True
   | Inr w' \<Rightarrow> canvasWidth (g_scene w') = canvasWidth (g_scene w) \<and>
       canvasHeight (g_scene w') = canvasHeight (g_scene w)"
  by (simp add: updateFrame_def updateFrame_body_def prog_defs
      split: reply.split option.split)

lemma getFrameRate_canvas:
  "case getFrameRate eng w of Inl _ \<Rightarrow> True
   | Inr (r, w') \<Rightarrow> canvasWidth (g_scene w') = canvasWidth (g_scene w) \<and>
       canvasHeight (g_scene w') = canvasHeight (g_scene w)"
  by (simp add: getFrameRate_def getFrameRate_body_def no_catch_def prog_defs
      split: reply.split option.split)

lemma setCanvasSize_rejected:
  "sint width \<le> 0 \<or> sint height \<le> 0 \<Longrightarrow> setCanvasSize eng width height w = Inr w"
  by (auto simp add: setCanvasSize_def setCanvasSize_body_def try_catch_def skip_def)

lemma setCanvasSize_accepted:
  "0 < sint width \<Longrightarrow> 0 < sint height \<Longrightarrow>
   case setCanvasSize eng width height w of Inl _ \<Rightarrow> True
   | Inr w' \<Rightarrow> canvasWidth (g_scene w') = width \<and> canvasHeight (g_scene w') = height"
  by (simp add: setCanvasSize_def setCanvasSize_body_def prog_defs
      split: reply.split option.split)

lemma reachable_canvas_positive:
  "reachable w \<Longrightarrow>
     0 < sint (canvasWidth (g_scene w)) \<and> 0 < sint (canvasHeight (g_scene w))"
proof (induction rule: reachable.induct)
  case r_main
  show ?case by (simp add: main_world_def g_scene0_def)
next
  case (r_initScene w eng w')
  then show ?case using initScene_canvas [where eng = eng and w = w] by simp
next
  case (r_loadAvatarModel w eng glbBuffer w')
  then show ?case using loadAvatarModel_canvas [where eng = eng and glbBuffer = glbBuffer and w = w] by simp
next
  case (r_setAnimationState w eng stateName w')
  then show ?case using setAnimationState_canvas [where eng = eng and stateName = stateName and w = w] by simp
next
  case (r_updateFrame w eng w')
  then show ?case using updateFrame_canvas [where eng = eng and w = w] by simp
next
  case (r_setCanvasSize w eng width height w')
  show ?case
  proof (cases "sint width \<le> 0 \<or> sint height \<le> 0")
    case True
    with r_setCanvasSize show ?thesis
      using setCanvasSize_rejected [where width = width and height = height and eng = eng and w = w] by simp
  next
    case False
    with r_setCanvasSize show ?thesis
      using setCanvasSize_accepted [where width = width and height = height and eng = eng and w = w] by simp
  qed
next
  case (r_getFrameRate w eng r w')
  then show ?case using getFrameRate_canvas [where eng = eng and w = w] by simp
next
  case (r_cleanup w w')
  then show ?case by (simp add: cleanup_result) auto
qed

lemma reachable_initialized: "reachable initialized_world"
  using r_main r_initScene initScene_healthy by blast

text \<open>
  C4. When \<^verbatim>\<open>width <= 0\<close> or \<^verbatim>\<open>height <= 0\<close> (as signed 32-bit values),
  \<^verbatim>\<open>setCanvasSize\<close> returns normally and changes nothing: the stored dimensions are the
  same and no event is produced, so neither the device nor the scene is called. Hence
  \<^verbatim>\<open>canvasWidth\<close> and \<^verbatim>\<open>canvasHeight\<close> are positive in every reachable state.
\<close>

theorem setCanvasSize_rejects_nonpositive:
  "(sint width \<le> 0 \<or> sint height \<le> 0 \<longrightarrow> setCanvasSize eng width height w = Inr w) \<and>
   (reachable w \<longrightarrow>
      0 < sint (canvasWidth (g_scene w)) \<and> 0 < sint (canvasHeight (g_scene w)))"
  using setCanvasSize_rejected [where width = width and height = height and eng = eng and w = w] reachable_canvas_positive [of w]
  by blast

theorem setCanvasSize_rejects_nonpositive_witness:
  "(sint (- 1 :: 32 word) \<le> 0 \<or> sint (600 :: 32 word) \<le> 0) \<and>
   setCanvasSize healthy_engine (- 1) 600 initialized_world = Inr initialized_world \<and>
   reachable initialized_world \<and>
   0 < sint (canvasWidth (g_scene initialized_world)) \<and>
   0 < sint (canvasHeight (g_scene initialized_world))"
  using setCanvasSize_rejects_nonpositive [of "- 1" 600 healthy_engine initialized_world]
    reachable_initialized
  by simp




section \<open>Frames: \<^verbatim>\<open>updateFrame\<close>\<close>

lemmas updateFrame_defs = updateFrame_def updateFrame_body_def prog_defs frame_step_def
  emitted_def

lemma updateFrame_state:
  "case updateFrame eng w of Inl _ \<Rightarrow> False
   | Inr w' \<Rightarrow> g_scene w' = g_scene w \<and>
       (animator (g_scene w) = None \<and> scene (g_scene w) = None \<longrightarrow> w' = w)"
  by (cases "animator (g_scene w)"; cases "scene (g_scene w)";
      cases "graphicsDevice (g_scene w)")
    (simp_all add: updateFrame_defs split: reply.split)

lemma updateFrame_no_animator:
  "animator (g_scene w) = None \<Longrightarrow>
   case updateFrame eng w of Inl _ \<Rightarrow> False
   | Inr w' \<Rightarrow> \<forall>dt. Call (AnimatorUpdate dt) \<notin> set (emitted w w')"
  by (cases "animator (g_scene w)"; cases "scene (g_scene w)";
      cases "graphicsDevice (g_scene w)")
    (simp_all add: updateFrame_defs split: reply.split)

lemma updateFrame_no_scene:
  "scene (g_scene w) = None \<Longrightarrow>
   case updateFrame eng w of Inl _ \<Rightarrow> False
   | Inr w' \<Rightarrow> \<forall>dt d. Call (SceneUpdate dt) \<notin> set (emitted w w') \<and>
       Call BeginFrame \<notin> set (emitted w w') \<and>
       Call (SceneRender d) \<notin> set (emitted w w') \<and>
       Call EndFrame \<notin> set (emitted w w') \<and>
       Call Present \<notin> set (emitted w w')"
  by (cases "animator (g_scene w)"; cases "scene (g_scene w)";
      cases "graphicsDevice (g_scene w)")
    (simp_all add: updateFrame_defs split: reply.split)

lemma updateFrame_no_device:
  "graphicsDevice (g_scene w) = None \<Longrightarrow>
   case updateFrame eng w of Inl _ \<Rightarrow> False
   | Inr w' \<Rightarrow> \<forall>d. Call BeginFrame \<notin> set (emitted w w') \<and>
       Call (SceneRender d) \<notin> set (emitted w w') \<and>
       Call EndFrame \<notin> set (emitted w w') \<and>
       Call Present \<notin> set (emitted w w')"
  by (cases "animator (g_scene w)"; cases "scene (g_scene w)";
      cases "graphicsDevice (g_scene w)")
    (simp_all add: updateFrame_defs split: reply.split)

lemma updateFrame_no_error:
  "\<forall>tr c what. eng tr c \<noteq> Throws what \<Longrightarrow>
   case updateFrame eng w of Inl _ \<Rightarrow> False
   | Inr w' \<Rightarrow> \<forall>message. LogError message \<notin> set (emitted w w')"
  by (cases "animator (g_scene w)"; cases "scene (g_scene w)";
      cases "graphicsDevice (g_scene w)")
    (simp_all add: updateFrame_defs split: reply.split)

text \<open>
  C6. \<^verbatim>\<open>updateFrame\<close> returns normally in every state, with \<^verbatim>\<open>g_scene\<close> unchanged.
  Without an animator it makes no animator update; without a scene it makes no scene
  update; without a device or without a scene it makes none of the four calls of a render
  cycle. With neither animator nor scene, as before \<^verbatim>\<open>initScene\<close>, it does nothing at
  all. An absent handle raises no error: an error is logged only when a call that was
  made threw.
\<close>

theorem updateFrame_skips_absent_handles:
  "\<exists>w'. updateFrame eng w = Inr w' \<and> g_scene w' = g_scene w \<and>
     (animator (g_scene w) = None \<longrightarrow>
        (\<forall>dt. Call (AnimatorUpdate dt) \<notin> set (emitted w w'))) \<and>
     (scene (g_scene w) = None \<longrightarrow>
        (\<forall>dt. Call (SceneUpdate dt) \<notin> set (emitted w w'))) \<and>
     (graphicsDevice (g_scene w) = None \<or> scene (g_scene w) = None \<longrightarrow>
        (\<forall>d. Call BeginFrame \<notin> set (emitted w w') \<and>
             Call (SceneRender d) \<notin> set (emitted w w') \<and>
             Call EndFrame \<notin> set (emitted w w') \<and>
             Call Present \<notin> set (emitted w w'))) \<and>
     (animator (g_scene w) = None \<and> scene (g_scene w) = None \<longrightarrow> w' = w) \<and>
     ((\<forall>tr c what. eng tr c \<noteq> Throws what) \<longrightarrow>
        (\<forall>message. LogError message \<notin> set (emitted w w')))"
proof (cases "updateFrame eng w")
  case (Inl f)
  with updateFrame_state [where eng = eng and w = w] show ?thesis by simp
next
  case (Inr w')
  have c1: "g_scene w' = g_scene w"
    and c5: "animator (g_scene w) = None \<and> scene (g_scene w) = None \<longrightarrow> w' = w"
    using updateFrame_state [where eng = eng and w = w] Inr by simp_all
  have c2: "animator (g_scene w) = None \<longrightarrow>
        (\<forall>dt. Call (AnimatorUpdate dt) \<notin> set (emitted w w'))"
    using updateFrame_no_animator [where eng = eng and w = w] Inr by simp
  have sc: "scene (g_scene w) = None \<longrightarrow>
        (\<forall>dt d. Call (SceneUpdate dt) \<notin> set (emitted w w') \<and>
       Call BeginFrame \<notin> set (emitted w w') \<and>
       Call (SceneRender d) \<notin> set (emitted w w') \<and>
       Call EndFrame \<notin> set (emitted w w') \<and>
       Call Present \<notin> set (emitted w w'))"
    using updateFrame_no_scene [where eng = eng and w = w] Inr by simp
  have dv: "graphicsDevice (g_scene w) = None \<longrightarrow>
        (\<forall>d. Call BeginFrame \<notin> set (emitted w w') \<and>
       Call (SceneRender d) \<notin> set (emitted w w') \<and>
       Call EndFrame \<notin> set (emitted w w') \<and>
       Call Present \<notin> set (emitted w w'))"
    using updateFrame_no_device [where eng = eng and w = w] Inr by simp
  have c3: "scene (g_scene w) = None \<longrightarrow>
        (\<forall>dt. Call (SceneUpdate dt) \<notin> set (emitted w w'))"
    using sc by simp
  have c4: "graphicsDevice (g_scene w) = None \<or> scene (g_scene w) = None \<longrightarrow>
        (\<forall>d. Call BeginFrame \<notin> set (emitted w w') \<and>
             Call (SceneRender d) \<notin> set (emitted w w') \<and>
             Call EndFrame \<notin> set (emitted w w') \<and>
             Call Present \<notin> set (emitted w w'))"
  proof
    assume "graphicsDevice (g_scene w) = None \<or> scene (g_scene w) = None"
    then show "\<forall>d. Call BeginFrame \<notin> set (emitted w w') \<and>
             Call (SceneRender d) \<notin> set (emitted w w') \<and>
             Call EndFrame \<notin> set (emitted w w') \<and>
             Call Present \<notin> set (emitted w w')"
    proof
      assume "graphicsDevice (g_scene w) = None"
      with dv show ?thesis by simp
    next
      assume "scene (g_scene w) = None"
      with sc show ?thesis by simp
    qed
  qed
  have c6: "(\<forall>tr c what. eng tr c \<noteq> Throws what) \<longrightarrow>
        (\<forall>message. LogError message \<notin> set (emitted w w'))"
    using updateFrame_no_error [where eng = eng and w = w] Inr by simp
  show ?thesis
    by (intro exI [of _ w'] conjI) (fact Inr c1 c2 c3 c4 c5 c6)+
qed

theorem updateFrame_skips_absent_handles_witness:
  "\<exists>w'. updateFrame healthy_engine main_world = Inr w' \<and>
     animator (g_scene main_world) = None \<and> scene (g_scene main_world) = None \<and>
     graphicsDevice (g_scene main_world) = None \<and>
     (\<forall>tr c what. healthy_engine tr c \<noteq> Throws what) \<and>
     w' = main_world \<and>
     (\<forall>dt. Call (AnimatorUpdate dt) \<notin> set (emitted main_world w')) \<and>
     (\<forall>dt. Call (SceneUpdate dt) \<notin> set (emitted main_world w')) \<and>
     (\<forall>d. Call BeginFrame \<notin> set (emitted main_world w') \<and>
          Call (SceneRender d) \<notin> set (emitted main_world w') \<and>
          Call EndFrame \<notin> set (emitted main_world w') \<and>
          Call Present \<notin> set (emitted main_world w')) \<and>
     (\<forall>message. LogError message \<notin> set (emitted main_world w'))"
proof -
  have absent: "animator (g_scene main_world) = None" "scene (g_scene main_world) = None"
    "graphicsDevice (g_scene main_world) = None"
    by (simp_all add: main_world_def g_scene0_def)
  have quiet: "\<forall>tr c what. healthy_engine tr c \<noteq> Throws what"
    by (simp add: healthy_engine_def)
  from updateFrame_skips_absent_handles [of healthy_engine main_world] absent quiet
  show ?thesis
    by auto
qed

section \<open>Model loading: \<^verbatim>\<open>loadAvatarModel\<close>\<close>

text \<open>
  Without a model loader the call throws \<^verbatim>\<open>Model loader not initialized\<close>, which is
  caught and logged; nothing of \<^verbatim>\<open>g_scene\<close> changes.
\<close>

lemma loadAvatarModel_no_loader:
  "modelLoader (g_scene w) = None \<Longrightarrow>
   loadAvatarModel_body eng glbBuffer w =
     Raise ''Model loader not initialized''
       (w\<lparr>trace := trace w @ [LogInfo ''Loading avatar model...'']\<rparr>)"
  by (simp add: loadAvatarModel_body_def prog_defs)

lemma loadAvatarModel_without_loader:
  "modelLoader (g_scene w) = None \<Longrightarrow>
   loadAvatarModel eng glbBuffer w =
     Inr (w\<lparr>trace := trace w @ [LogInfo ''Loading avatar model...'',
        LogError ''Failed to load avatar model: Model loader not initialized'']\<rparr>)"
  by (simp add: loadAvatarModel_def try_catch_def loadAvatarModel_no_loader)

text \<open>
  C3 asks that \<^verbatim>\<open>loadAvatarModel\<close> with an absent registry fails with a logged error and
  no state change. The code tests the model loader only. After an \<^verbatim>\<open>initScene\<close> in which
  the construction of the animator throws, the model loader is present and the registry is
  not; there, on a buffer that the loader parses, \<^verbatim>\<open>loadAvatarModel\<close> reaches
  \<^verbatim>\<open>g_scene.registry->create()\<close> and dereferences the empty handle.
\<close>

theorem loadAvatarModel_without_registry:
  "initScene no_animator_engine main_world = Inr half_initialized_world \<and>
   modelLoader (g_scene half_initialized_world) = Some 1 \<and>
   registry (g_scene half_initialized_world) = None \<and>
   loadAvatarModel healthy_engine [103, 108, 84, 70] half_initialized_world = Inl NullDeref"
  by (simp add: initScene_no_animator loadAvatarModel_def loadAvatarModel_body_def prog_defs
      healthy_engine_def half_initialized_world_def g_scene0_def)

section \<open>The catch boundary\<close>











section \<open>Resizing before initialisation\<close>

lemma initScene_camera:
  "case initScene eng w of Inl _ \<Rightarrow> False
   | Inr w' \<Rightarrow> (\<exists>message. LogError message \<in> set (emitted w w')) \<or>
       Call (camera_call (g_scene w) (canvasWidth (g_scene w)) (canvasHeight (g_scene w)))
         \<in> set (emitted w w')"
  by (simp add: initScene_def initScene_body_def prog_defs setup_defs emitted_def camera_call_def
      split: reply.split)

text \<open>
  C9. With all five handles absent, a \<^verbatim>\<open>setCanvasSize\<close> with positive dimensions returns
  normally and stores them, changing nothing else. An \<^verbatim>\<open>initScene\<close> that follows and
  succeeds (it logs no error) calls \<^verbatim>\<open>setCamera\<close> with the aspect ratio
  \<^verbatim>\<open>float(width) / float(height)\<close> of the stored dimensions, not of the defaults.
\<close>

theorem setCanvasSize_before_initScene:
  assumes "\<forall>k. handle_of k (g_scene w) = None" and "0 < sint width" and "0 < sint height"
  shows "\<exists>w1. setCanvasSize eng width height w = Inr w1 \<and>
     w1 = w\<lparr>g_scene := (g_scene w)\<lparr>canvasWidth := width, canvasHeight := height\<rparr>\<rparr> \<and>
     (\<forall>eng' w2. initScene eng' w1 = Inr w2 \<and>
          (\<forall>message. LogError message \<notin> set (emitted w1 w2)) \<longrightarrow>
        Call (SetCamera (cameraPosition (g_scene w)) (cameraTarget (g_scene w))
              (Vec3 (Lit 0) (Lit 1) (Lit 0)) (cameraFOV (g_scene w))
              (Quot (OfInt width) (OfInt height)) (Lit (1 / 10)) (Lit 100))
          \<in> set (emitted w1 w2))"
proof -
  let ?w1 = "w\<lparr>g_scene := (g_scene w)\<lparr>canvasWidth := width, canvasHeight := height\<rparr>\<rparr>"
  from assms(1) have "handle_of HDevice (g_scene w) = None" "handle_of HScene (g_scene w) = None"
    by blast+
  then have absent: "graphicsDevice (g_scene w) = None" "scene (g_scene w) = None"
    by simp_all
  with assms(2,3) have resize: "setCanvasSize eng width height w = Inr ?w1"
    by (simp add: setCanvasSize_def setCanvasSize_body_def prog_defs)
  have camera: "Call (SetCamera (cameraPosition (g_scene w)) (cameraTarget (g_scene w))
              (Vec3 (Lit 0) (Lit 1) (Lit 0)) (cameraFOV (g_scene w))
              (Quot (OfInt width) (OfInt height)) (Lit (1 / 10)) (Lit 100))
          \<in> set (emitted ?w1 w2)"
    if "initScene eng' ?w1 = Inr w2" "\<forall>message. LogError message \<notin> set (emitted ?w1 w2)"
    for eng' w2
    using initScene_camera [where eng = eng' and w = ?w1] that
    by (simp add: camera_call_def)
  from resize camera show ?thesis
    by blast
qed

theorem setCanvasSize_before_initScene_witness:
  "(\<forall>k. handle_of k (g_scene main_world) = None) \<and>
   0 < sint (1920 :: 32 word) \<and> 0 < sint (1080 :: 32 word) \<and>
   (\<exists>w1 w2. setCanvasSize healthy_engine 1920 1080 main_world = Inr w1 \<and>
      canvasWidth (g_scene w1) = 1920 \<and> canvasHeight (g_scene w1) = 1080 \<and>
      initScene healthy_engine w1 = Inr w2 \<and>
      (\<forall>message. LogError message \<notin> set (emitted w1 w2)) \<and>
      Call (SetCamera (Vec3 (Lit 0) (Lit (17 / 10)) (Lit (5 / 2)))
              (Vec3 (Lit 0) (Lit (3 / 2)) (Lit 0))
              (Vec3 (Lit 0) (Lit 1) (Lit 0)) (Lit 50)
              (Quot (OfInt 1920) (OfInt 1080)) (Lit (1 / 10)) (Lit 100))
          \<in> set (emitted w1 w2))"
proof -
  define w1 where
    "w1 = main_world\<lparr>g_scene := (g_scene main_world)\<lparr>canvasWidth := 1920, canvasHeight := 1080\<rparr>\<rparr>"
  have absent: "\<forall>k. handle_of k (g_scene main_world) = None"
  proof
    fix k
    show "handle_of k (g_scene main_world) = None"
      by (cases k) (simp_all add: main_world_def g_scene0_def)
  qed
  have pos: "0 < sint (1920 :: 32 word)" "0 < sint (1080 :: 32 word)"
    by simp_all
  from setCanvasSize_before_initScene [OF absent pos, of healthy_engine]
  have resize: "setCanvasSize healthy_engine 1920 1080 main_world = Inr w1"
    and camera: "\<And>eng' w2. initScene eng' w1 = Inr w2 \<Longrightarrow>
          \<forall>message. LogError message \<notin> set (emitted w1 w2) \<Longrightarrow>
        Call (SetCamera (cameraPosition (g_scene main_world)) (cameraTarget (g_scene main_world))
              (Vec3 (Lit 0) (Lit 1) (Lit 0)) (cameraFOV (g_scene main_world))
              (Quot (OfInt 1920) (OfInt 1080)) (Lit (1 / 10)) (Lit 100))
          \<in> set (emitted w1 w2)"
    unfolding w1_def by blast+
  have "\<exists>w2. initScene healthy_engine w1 = Inr w2 \<and>
      (\<forall>message. LogError message \<notin> set (emitted w1 w2))"
    by (simp add: w1_def initScene_def initScene_body_def prog_defs setup_defs
        healthy_engine_def main_world_def g_scene0_def camera_call_def emitted_def)
  then obtain w2 where run: "initScene healthy_engine w1 = Inr w2"
    "\<forall>message. LogError message \<notin> set (emitted w1 w2)"
    by blast
  from camera [OF run] have "Call (SetCamera (Vec3 (Lit 0) (Lit (17 / 10)) (Lit (5 / 2)))
              (Vec3 (Lit 0) (Lit (3 / 2)) (Lit 0))
              (Vec3 (Lit 0) (Lit 1) (Lit 0)) (Lit 50)
              (Quot (OfInt 1920) (OfInt 1080)) (Lit (1 / 10)) (Lit 100))
          \<in> set (emitted w1 w2)"
    by (simp add: main_world_def g_scene0_def)
  moreover have "canvasWidth (g_scene w1) = 1920" "canvasHeight (g_scene w1) = 1080"
    by (simp_all add: w1_def)
  ultimately show ?thesis
    using absent pos resize run by blast
qed

end
